theory Spec2Isabelle
  imports Complex_Main "HOL-Library.Multiset"
begin

section \<open>Data model\<close>

text \<open>
  The router of \<^verbatim>\<open>CP2.py\<close> (class \<^verbatim>\<open>RoteadorMetroLondres\<close>). Python dictionaries are
  association lists in insertion order; the memoisation cache, which is only looked up and
  updated by key, is a map. Floating-point numbers are read as real numbers. Exceptions are
  values of type \<open>error\<close>.
\<close>

datatype error = KeyError | ValueError | OverflowError

record conexao =
  vizinho :: string
  linha :: string

record candidato =
  caminho :: "string list"
  tempo :: real
  linhas :: "string list"
  trocas :: nat

type_synonym memo_t = "(string \<times> string set) \<rightharpoonup> candidato list"

record roteador =
  stations :: "(string \<times> real \<times> real) list"
  graph :: "(string \<times> conexao list) list"
  memo :: memo_t

definition VELOCIDADE_TREM_KMH :: real where
  "VELOCIDADE_TREM_KMH = 35"

definition PENALIDADE_TROCA_LINHA_MIN :: real where
  "PENALIDADE_TROCA_LINHA_MIN = 3"

section \<open>Clock\<close>

text \<open>
  A \<^verbatim>\<open>datetime\<close> is the number of microseconds since 1900-01-01 00:00, the date that
  \<^verbatim>\<open>strptime\<close> gives to a time of day. \<^verbatim>\<open>timedelta(minutes=x)\<close> rounds to a whole number
  of microseconds, halves to even. The representable instants run from the first day of
  the year 1, 693595 days before the origin, to the last microsecond of the year 9999,
  2958464 days after it; an addition that leaves this range raises \<^verbatim>\<open>OverflowError\<close>.
\<close>

definition py_round :: "real \<Rightarrow> int" where
  "py_round x =
     (let f = \<lfloor>x\<rfloor>; d = x - of_int f
      in if d < 1 / 2 then f else if 1 / 2 < d then f + 1
         else if even f then f else f + 1)"

definition timedelta_minutes :: "real \<Rightarrow> int" where
  "timedelta_minutes x = py_round (x * 60000000)"

definition datetime_min :: int where
  "datetime_min = - (693595 * 86400000000)"

definition datetime_max :: int where
  "datetime_max = 2958464 * 86400000000 - 1"

definition datetime_add :: "int \<Rightarrow> int \<Rightarrow> error + int" where
  "datetime_add t d =
     (if t + d < datetime_min \<or> datetime_max < t + d then Inl OverflowError else Inr (t + d))"

definition hour :: "int \<Rightarrow> int" where
  "hour t = (t div 3600000000) mod 24"

definition clock_of :: "int \<Rightarrow> int \<Rightarrow> int" where
  "clock_of h m = (h * 60 + m) * 60000000"

section \<open>Strings\<close>

text \<open>
  A character is a code point below 256. \<^verbatim>\<open>str.strip()\<close> removes from both ends the
  characters for which \<^verbatim>\<open>str.isspace\<close> holds: below 256 these are the codes 9 to 13, 28 to
  32, 133 and 160. \<^verbatim>\<open>str.split(sep)\<close> cuts at the occurrences of a non-empty separator
  found from left to right.
\<close>

definition isspace :: "char \<Rightarrow> bool" where
  "isspace c = (of_char c \<in> {9, 10, 11, 12, 13, 28, 29, 30, 31, 32, 133, 160 :: nat})"

definition strip :: "string \<Rightarrow> string" where
  "strip s = rev (dropWhile isspace (rev (dropWhile isspace s)))"

function split_go :: "string \<Rightarrow> string \<Rightarrow> string \<Rightarrow> string list" where
  "split_go sep cur s =
     (if sep \<noteq> [] \<and> take (length sep) s = sep
      then rev cur # split_go sep [] (drop (length sep) s)
      else (case s of [] \<Rightarrow> [rev cur] | c # s' \<Rightarrow> split_go sep (c # cur) s'))"
  by pat_completeness auto
termination
proof (relation "measure (\<lambda>(sep, cur, s). length s)")
  show "wf (measure (\<lambda>(sep, cur, s). length s))" by simp
next
  fix sep cur s :: string
  assume a: "sep \<noteq> [] \<and> take (length sep) s = sep"
  then have "length (take (length sep) s) = length sep" by simp
  then have "length sep \<le> length s" by simp
  moreover have "0 < length sep" using a by simp
  ultimately have "length s - length sep < length s" by linarith
  then show "((sep, [], drop (length sep) s), (sep, cur, s))
      \<in> measure (\<lambda>(sep, cur, s). length s)"
    by simp
next
  fix sep cur s :: string and c s'
  assume "s = c # s'"
  then show "((sep, c # cur, s'), (sep, cur, s)) \<in> measure (\<lambda>(sep, cur, s). length s)"
    by simp
qed

definition split :: "string \<Rightarrow> string \<Rightarrow> string list" where
  "split sep s = split_go sep [] s"

section \<open>Network graph\<close>

text \<open>
  \<^verbatim>\<open>_build_graph\<close>. The edges are either a dictionary from a line name to a list of pairs
  (each pair a sequence of strings) or a text of lines \<^verbatim>\<open>origem - destino - linha\<close>.
  \<^verbatim>\<open>graph[k].append(c)\<close> is \<open>append_adj k c\<close>; a missing key raises \<^verbatim>\<open>KeyError\<close>, and a
  line that does not unpack into three fields raises \<^verbatim>\<open>ValueError\<close>.
\<close>

datatype edges_data =
  Dict "(string \<times> string list list) list"
| Text string

type_synonym graph_t = "(string \<times> conexao list) list"

definition keys :: "('k \<times> 'v) list \<Rightarrow> 'k set" where
  "keys d = fst ` set d"

definition append_adj :: "string \<Rightarrow> conexao \<Rightarrow> graph_t \<Rightarrow> graph_t" where
  "append_adj k c g = map (\<lambda>(n, cs). if n = k then (n, cs @ [c]) else (n, cs)) g"

definition add_edge :: "string \<Rightarrow> string \<Rightarrow> string \<Rightarrow> graph_t \<Rightarrow> graph_t" where
  "add_edge origem destino nome_linha g =
     append_adj destino \<lparr>vizinho = origem, linha = nome_linha\<rparr>
       (append_adj origem \<lparr>vizinho = destino, linha = nome_linha\<rparr> g)"

fun build_pares :: "string \<Rightarrow> string list list \<Rightarrow> graph_t \<Rightarrow> graph_t" where
  "build_pares nome_linha [] g = g"
| "build_pares nome_linha (par # conexoes) g =
     (if par = [] \<or> length par < 2 then build_pares nome_linha conexoes g
      else
        let origem = strip (par ! 0); destino = strip (par ! 1)
        in if origem \<notin> keys g \<or> destino \<notin> keys g then build_pares nome_linha conexoes g
           else build_pares nome_linha conexoes (add_edge origem destino nome_linha g))"

fun build_dict :: "(string \<times> string list list) list \<Rightarrow> graph_t \<Rightarrow> graph_t" where
  "build_dict [] g = g"
| "build_dict ((nome_linha, conexoes) # items) g =
     build_dict items (build_pares nome_linha conexoes g)"

fun build_lines :: "string list \<Rightarrow> graph_t \<Rightarrow> error + graph_t" where
  "build_lines [] g = Inr g"
| "build_lines (line # rest) g =
     (case map strip (split '' - '' line) of
        [origem, destino, nome_linha] \<Rightarrow>
          if origem \<notin> keys g then Inl KeyError
          else if destino \<notin> keys g then Inl KeyError
          else build_lines rest (add_edge origem destino nome_linha g)
      | _ \<Rightarrow> Inl ValueError)"

definition build_graph :: "(string \<times> real \<times> real) list \<Rightarrow> edges_data \<Rightarrow> error + graph_t" where
  "build_graph sts data =
     (let g0 = map (\<lambda>(name, _). (name, [])) sts
      in case data of
           Dict items \<Rightarrow> Inr (build_dict items g0)
         | Text txt \<Rightarrow> build_lines (split [CHR 0x0A] (strip txt)) g0)"

definition init :: "(string \<times> real \<times> real) list \<Rightarrow> edges_data \<Rightarrow> error + roteador" where
  "init stations_data edges =
     (case build_graph stations_data edges of
        Inl e \<Rightarrow> Inl e
      | Inr g \<Rightarrow> Inr \<lparr>stations = stations_data, graph = g, memo = Map.empty\<rparr>)"

text \<open>
  For the statements about the builder: a pair of the dictionary form that the builder
  keeps, the trimmed fields of a line of the text form, a line that the builder accepts,
  and the symmetry of an adjacency structure.
\<close>

definition par_declarado :: "string set \<Rightarrow> string list \<Rightarrow> bool" where
  "par_declarado K par =
     (\<not> (par = [] \<or> length par < 2) \<and> strip (par ! 0) \<in> K \<and> strip (par ! 1) \<in> K)"

definition campos :: "string \<Rightarrow> string list" where
  "campos line = map strip (split '' - '' line)"

definition linha_valida :: "string set \<Rightarrow> string \<Rightarrow> bool" where
  "linha_valida K line =
     (case campos line of [origem, destino, nome_linha] \<Rightarrow> origem \<in> K \<and> destino \<in> K
      | _ \<Rightarrow> False)"

definition simetrico :: "graph_t \<Rightarrow> bool" where
  "simetrico g =
     (\<forall>a cs c. map_of g a = Some cs \<longrightarrow> c \<in> set cs \<longrightarrow>
        (\<exists>cs'. map_of g (vizinho c) = Some cs' \<and> \<lparr>vizinho = a, linha = linha c\<rparr> \<in> set cs'))"

section \<open>Geo-distance\<close>

text \<open>
  \<^verbatim>\<open>_haversine\<close> over the reals, reading the station table \<^verbatim>\<open>self.stations\<close>, whose
  values are pairs of a latitude and a longitude. \<^verbatim>\<open>math.sqrt\<close> raises \<^verbatim>\<open>ValueError\<close> on a
  negative argument, \<^verbatim>\<open>self.stations[estacao]\<close> raises \<^verbatim>\<open>KeyError\<close> on an unknown
  station.
\<close>

definition radians :: "real \<Rightarrow> real" where
  "radians x = x * pi / 180"

definition atan2 :: "real \<Rightarrow> real \<Rightarrow> real" where
  "atan2 y x =
     (if 0 < x then arctan (y / x)
      else if x < 0 then (if 0 \<le> y then arctan (y / x) + pi else arctan (y / x) - pi)
      else if 0 < y then pi / 2 else if y < 0 then - (pi / 2) else 0)"

definition get_coords :: "(string \<times> real \<times> real) list \<Rightarrow> string \<Rightarrow> error + (real \<times> real)" where
  "get_coords sts estacao =
     (case map_of sts estacao of None \<Rightarrow> Inl KeyError | Some val \<Rightarrow> Inr val)"

definition haversine :: "(string \<times> real \<times> real) list \<Rightarrow> string \<Rightarrow> string \<Rightarrow> error + real" where
  "haversine sts estacao1 estacao2 =
     (case get_coords sts estacao1 of
        Inl e \<Rightarrow> Inl e
      | Inr (lat1, lon1) \<Rightarrow>
          (case get_coords sts estacao2 of
             Inl e \<Rightarrow> Inl e
           | Inr (lat2, lon2) \<Rightarrow>
               (let phi1 = radians lat1; phi2 = radians lat2;
                    delta_phi = radians (lat2 - lat1);
                    delta_lambda = radians (lon2 - lon1);
                    a = (sin (delta_phi / 2))\<^sup>2
                        + cos phi1 * cos phi2 * (sin (delta_lambda / 2))\<^sup>2
                in if a < 0 \<or> 1 - a < 0 then Inl ValueError
                   else Inr (6371 * (2 * atan2 (sqrt a) (sqrt (1 - a)))))))"

definition get_tempo_deslocamento :: "(string \<times> real \<times> real) list \<Rightarrow> string \<Rightarrow> string \<Rightarrow> error + real" where
  "get_tempo_deslocamento sts estacao1 estacao2 =
     (case haversine sts estacao1 estacao2 of
        Inl e \<Rightarrow> Inl e
      | Inr distancia_km \<Rightarrow> Inr ((distancia_km / VELOCIDADE_TREM_KMH) * 60))"

section \<open>Cost model\<close>

definition get_tempo_espera :: "int \<Rightarrow> real" where
  "get_tempo_espera hora_atual =
     (if hour hora_atual < 11 then 1.5
      else if hour hora_atual \<ge> 18 then 2.0
      else 1.0)"

section \<open>Path enumerator\<close>

text \<open>
  \<^verbatim>\<open>_encontrar_caminhos_recursivo\<close>, with the cache \<^verbatim>\<open>self.memo\<close> passed in and returned.
  The \<^verbatim>\<open>for\<close> loop over \<^verbatim>\<open>self.graph[atual]\<close> is \<open>percorrer_conexoes\<close>, whose last
  argument is the list \<^verbatim>\<open>caminhos_encontrados\<close> built so far. The visited set is the
  \<^verbatim>\<open>frozenset\<close> of the cache key; \<^verbatim>\<open>linha_anterior\<close> is \<open>None\<close> at the origin. The depth
  limit of the Python interpreter is not part of the model.
\<close>

definition caminho_completo :: "string \<Rightarrow> string \<Rightarrow> real \<Rightarrow> bool \<Rightarrow> candidato \<Rightarrow> candidato" where
  "caminho_completo atual linha_atual tempo_trecho troca_de_linha sub_caminho =
     \<lparr>caminho = [atual] @ caminho sub_caminho,
      tempo = tempo_trecho + tempo sub_caminho,
      linhas = [linha_atual] @ linhas sub_caminho,
      trocas = (if troca_de_linha then 1 else 0) + trocas sub_caminho\<rparr>"

function encontrar_caminhos_recursivo ::
    "(string \<times> real \<times> real) list \<Rightarrow> graph_t \<Rightarrow> memo_t \<Rightarrow> string \<Rightarrow> string \<Rightarrow> string set \<Rightarrow> int
      \<Rightarrow> string option \<Rightarrow> error + (candidato list \<times> memo_t)"
  and percorrer_conexoes ::
    "(string \<times> real \<times> real) list \<Rightarrow> graph_t \<Rightarrow> memo_t \<Rightarrow> string \<Rightarrow> string \<Rightarrow> string set \<Rightarrow> int
      \<Rightarrow> string option \<Rightarrow> conexao list \<Rightarrow> candidato list
      \<Rightarrow> error + (candidato list \<times> memo_t)"
where
  "encontrar_caminhos_recursivo sts g m atual destino visitados hora_atual linha_anterior =
     (if atual = destino
      then Inr ([\<lparr>caminho = [destino], tempo = 0, linhas = [], trocas = 0\<rparr>], m)
      else
        (case m (atual, visitados) of
           Some res \<Rightarrow> Inr (res, m)
         | None \<Rightarrow>
             (case map_of g atual of
                None \<Rightarrow> Inl KeyError
              | Some conexoes \<Rightarrow>
                  (case percorrer_conexoes sts g m atual destino visitados hora_atual
                          linha_anterior conexoes [] of
                     Inl e \<Rightarrow> Inl e
                   | Inr (caminhos_encontrados, m') \<Rightarrow>
                       Inr (caminhos_encontrados,
                            m'((atual, visitados) \<mapsto> caminhos_encontrados))))))"
| "percorrer_conexoes sts g m atual destino visitados hora_atual linha_anterior [] acc =
     Inr (acc, m)"
| "percorrer_conexoes sts g m atual destino visitados hora_atual linha_anterior
      (conexao # resto) acc =
     (if vizinho conexao \<notin> visitados
      then
        (case get_tempo_deslocamento sts atual (vizinho conexao) of
           Inl e \<Rightarrow> Inl e
         | Inr tempo_deslocamento \<Rightarrow>
             (let troca_de_linha =
                    (linha_anterior \<noteq> None \<and> linha_anterior \<noteq> Some (linha conexao));
                  penalidade = (if troca_de_linha then PENALIDADE_TROCA_LINHA_MIN else 0);
                  tempo_trecho = get_tempo_espera hora_atual + tempo_deslocamento + penalidade
              in case datetime_add hora_atual (timedelta_minutes tempo_trecho) of
                   Inl e \<Rightarrow> Inl e
                 | Inr proxima_hora \<Rightarrow>
                     (case encontrar_caminhos_recursivo sts g m (vizinho conexao) destino
                             (insert atual visitados) proxima_hora (Some (linha conexao)) of
                        Inl e \<Rightarrow> Inl e
                      | Inr (sub_caminhos, m') \<Rightarrow>
                          percorrer_conexoes sts g m' atual destino visitados hora_atual
                            linha_anterior resto
                            (acc @ map (caminho_completo atual (linha conexao) tempo_trecho
                                          troca_de_linha) sub_caminhos))))
      else percorrer_conexoes sts g m atual destino visitados hora_atual linha_anterior
             resto acc)"
  by pat_completeness auto

text \<open>
  Termination. The measure counts the stations named in the graph (with the current station
  and the entries still to be looped over) that are not yet visited, twice, plus one when
  the current station is itself in the visited set, as it is after an edge from a station to
  itself.
\<close>

definition todos_vizinhos :: "graph_t \<Rightarrow> string set" where
  "todos_vizinhos g = set (map vizinho (concat (map snd g)))"

definition universo :: "graph_t \<Rightarrow> string \<Rightarrow> conexao list \<Rightarrow> string set" where
  "universo g atual cs = todos_vizinhos g \<union> {atual} \<union> vizinho ` set cs"

definition por_visitar :: "graph_t \<Rightarrow> string \<Rightarrow> conexao list \<Rightarrow> string set \<Rightarrow> nat" where
  "por_visitar g atual cs visitados =
     2 * card (universo g atual cs - visitados) + (if atual \<in> visitados then 1 else 0)"

lemma finite_universo: "finite (universo g a cs)"
  by (simp add: universo_def todos_vizinhos_def)

lemma map_of_todos_vizinhos:
  assumes "map_of g a = Some cs"
  shows "vizinho ` set cs \<subseteq> todos_vizinhos g"
proof -
  from assms have "(a, cs) \<in> set g" by (rule map_of_SomeD)
  then show ?thesis by (force simp: todos_vizinhos_def)
qed

lemma por_visitar_lookup:
  assumes "map_of g a = Some cs"
  shows "por_visitar g a cs V = por_visitar g a [] V"
proof -
  from map_of_todos_vizinhos [OF assms]
  have "universo g a cs = universo g a []" by (auto simp: universo_def)
  then show ?thesis by (simp add: por_visitar_def)
qed

lemma por_visitar_resto: "por_visitar g a cs V \<le> por_visitar g a (c # cs) V"
proof -
  have "universo g a cs - V \<subseteq> universo g a (c # cs) - V"
    by (auto simp: universo_def)
  then have "card (universo g a cs - V) \<le> card (universo g a (c # cs) - V)"
    by (rule card_mono [rotated]) (simp add: finite_universo)
  then show ?thesis by (simp add: por_visitar_def)
qed

lemma por_visitar_vizinho:
  assumes "vizinho c \<notin> V"
  shows "por_visitar g (vizinho c) [] (insert a V) < por_visitar g a (c # cs) V"
proof (cases "a \<in> V")
  case True
  then have eq: "insert a V = V" by blast
  have "universo g (vizinho c) [] - V \<subseteq> universo g a (c # cs) - V"
    by (auto simp: universo_def)
  then have "card (universo g (vizinho c) [] - V) \<le> card (universo g a (c # cs) - V)"
    by (rule card_mono [rotated]) (simp add: finite_universo)
  with True assms show ?thesis by (simp add: por_visitar_def eq)
next
  case False
  have "universo g (vizinho c) [] - insert a V \<subset> universo g a (c # cs) - V"
    using False by (auto simp: universo_def)
  then have "card (universo g (vizinho c) [] - insert a V) < card (universo g a (c # cs) - V)"
    by (rule psubset_card_mono [rotated]) (simp add: finite_universo)
  then show ?thesis using False by (simp add: por_visitar_def)
qed

lemma dominio_total: "All encontrar_caminhos_recursivo_percorrer_conexoes_dom"
proof (relation "inv_image (less_than <*lex*> less_than <*lex*> less_than)
     (\<lambda>x. case x of
         Inl (sts, g, m, atual, destino, visitados, hora, la) \<Rightarrow>
           (por_visitar g atual [] visitados, 1::nat, 0::nat)
       | Inr (sts, g, m, atual, destino, visitados, hora, la, cs, acc) \<Rightarrow>
           (por_visitar g atual cs visitados, 0, length cs))", goal_cases)
  case 1
  show ?case by (intro wf_inv_image wf_lex_prod wf_less_than)
next
  case (2 sts g m atual destino visitados hora la conexoes)
  then show ?case by (simp add: por_visitar_lookup)
next
  case (3 sts g m atual destino visitados hora la conexao resto acc td)
  then show ?case by (simp add: por_visitar_vizinho)
next
  case (4 sts g m atual destino visitados hora la conexao resto acc td x xa xb x2 xc y)
  show ?case using por_visitar_resto [of g atual resto visitados conexao]
    by (auto dest: le_neq_implies_less)
next
  case (5 sts g m atual destino visitados hora la conexao resto acc)
  show ?case using por_visitar_resto [of g atual resto visitados conexao]
    by (auto dest: le_neq_implies_less)
qed

termination encontrar_caminhos_recursivo
  by (rule dominio_total)

section \<open>Route selector and public entry point\<close>

text \<open>
  \<^verbatim>\<open>datetime.strptime(s, "%H:%M")\<close> matches the text against the pattern
  \<^verbatim>\<open>(2[0-3]|[0-1]\d|\d):([0-5]\d|\d)\<close>, alternatives tried in this order, and raises
  \<^verbatim>\<open>ValueError\<close> when the pattern does not match or when text remains after the match.
\<close>

definition isdigit :: "char \<Rightarrow> bool" where
  "isdigit c = (48 \<le> (of_char c :: nat) \<and> (of_char c :: nat) \<le> 57)"

definition digit :: "char \<Rightarrow> int" where
  "digit c = int (of_char c) - 48"

definition match_H :: "string \<Rightarrow> (int \<times> string) list" where
  "match_H s =
     (case s of
        a # b # rest \<Rightarrow>
          (if a = CHR ''2'' \<and> isdigit b \<and> digit b \<le> 3 then [(20 + digit b, rest)] else [])
          @ (if isdigit a \<and> digit a \<le> 1 \<and> isdigit b then [(10 * digit a + digit b, rest)] else [])
          @ (if isdigit a then [(digit a, b # rest)] else [])
      | [a] \<Rightarrow> (if isdigit a then [(digit a, [])] else [])
      | [] \<Rightarrow> [])"

definition match_M :: "string \<Rightarrow> (int \<times> string) list" where
  "match_M s =
     (case s of
        a # b # rest \<Rightarrow>
          (if isdigit a \<and> digit a \<le> 5 \<and> isdigit b then [(10 * digit a + digit b, rest)] else [])
          @ (if isdigit a then [(digit a, b # rest)] else [])
      | [a] \<Rightarrow> (if isdigit a then [(digit a, [])] else [])
      | [] \<Rightarrow> [])"

definition strptime_HM :: "string \<Rightarrow> error + int" where
  "strptime_HM s =
     (case filter (\<lambda>(h, rest). take 1 rest = '':'') (match_H s) of
        [] \<Rightarrow> Inl ValueError
      | (h, rest) # _ \<Rightarrow>
          (case match_M (drop 1 rest) of
             [] \<Rightarrow> Inl ValueError
           | (mi, rest') # _ \<Rightarrow>
               if rest' \<noteq> [] then Inl ValueError else Inr (clock_of h mi)))"

text \<open>
  \<^verbatim>\<open>min(xs, key=f)\<close> and \<^verbatim>\<open>max(xs, key=f)\<close> return the first element with the least
  (greatest) key; \<^verbatim>\<open>sorted(xs, key=f)\<close> is stable, as \<open>sort_key\<close> is.
\<close>

definition min_key :: "('a \<Rightarrow> real) \<Rightarrow> 'a \<Rightarrow> 'a list \<Rightarrow> 'a" where
  "min_key f x xs = foldl (\<lambda>b y. if f y < f b then y else b) x xs"

definition max_key :: "('a \<Rightarrow> real) \<Rightarrow> 'a \<Rightarrow> 'a list \<Rightarrow> 'a" where
  "max_key f x xs = foldl (\<lambda>b y. if f b < f y then y else b) x xs"

text \<open>
  \<^verbatim>\<open>encontrar_caminho\<close> prints its outcome and returns nothing; the outcome is modelled as a
  value, together with the router whose cache the search has updated.
\<close>

datatype resultado =
  EstacaoInexistente
| NenhumCaminho
| ModoInvalido
| Rota candidato

definition encontrar_caminho ::
    "roteador \<Rightarrow> string \<Rightarrow> string \<Rightarrow> string \<Rightarrow> string \<Rightarrow> error + (resultado \<times> roteador)" where
  "encontrar_caminho r origem destino hora_inicio_str modo =
     (if origem \<notin> keys (stations r) \<or> destino \<notin> keys (stations r)
      then Inr (EstacaoInexistente, r)
      else
        (case strptime_HM hora_inicio_str of
           Inl e \<Rightarrow> Inl e
         | Inr hora_inicio \<Rightarrow>
             (case encontrar_caminhos_recursivo (stations r) (graph r) (memo r)
                     origem destino {} hora_inicio None of
                Inl e \<Rightarrow> Inl e
              | Inr (todos_caminhos, m') \<Rightarrow>
                  (let r' = r\<lparr>memo := m'\<rparr>
                   in if todos_caminhos = [] then Inr (NenhumCaminho, r')
                      else if modo = ''menor''
                      then Inr (Rota (min_key tempo (hd todos_caminhos) (tl todos_caminhos)), r')
                      else if modo = ''maior''
                      then Inr (Rota (max_key tempo (hd todos_caminhos) (tl todos_caminhos)), r')
                      else if modo = ''medio''
                      then
                        (let caminhos_ordenados = sort_key tempo todos_caminhos;
                             idx = (length caminhos_ordenados - 1) div 2
                         in Inr (Rota (caminhos_ordenados ! idx), r'))
                      else Inr (ModoInvalido, r')))))"

section \<open>Reference definitions of the specification\<close>

text \<open>
  What the specification says a candidate path carries, recomputed from the path alone:
  the number of adjacent pairs of the line sequence that differ, and the sum over the edges
  in order of \<open>edge_time\<close> (waiting time at the departure instant, travel time, transfer
  penalty for the incoming line), the clock advanced by each edge's time.
\<close>

definition contar_trocas :: "string list \<Rightarrow> nat" where
  "contar_trocas ls = length (filter (\<lambda>i. ls ! i \<noteq> ls ! Suc i) [0 ..< length ls - 1])"

definition edge_time :: "real \<Rightarrow> int \<Rightarrow> string option \<Rightarrow> string \<Rightarrow> real" where
  "edge_time distance_km departure_time incoming_line outgoing_line =
     get_tempo_espera departure_time
     + (distance_km / VELOCIDADE_TREM_KMH) * 60
     + (if incoming_line \<noteq> None \<and> incoming_line \<noteq> Some outgoing_line
        then PENALIDADE_TROCA_LINHA_MIN else 0)"

fun tempo_simulado ::
    "(string \<times> real \<times> real) list \<Rightarrow> int \<Rightarrow> string option \<Rightarrow> string list \<Rightarrow> string list
      \<Rightarrow> error + real" where
  "tempo_simulado sts hora incoming (a # b # ps) (l # ls) =
     (case haversine sts a b of
        Inl e \<Rightarrow> Inl e
      | Inr km \<Rightarrow>
          (case datetime_add hora (timedelta_minutes (edge_time km hora incoming l)) of
             Inl e \<Rightarrow> Inl e
           | Inr proxima \<Rightarrow>
               (case tempo_simulado sts proxima (Some l) (b # ps) ls of
                  Inl e \<Rightarrow> Inl e
                | Inr t \<Rightarrow> Inr (edge_time km hora incoming l + t))))"
| "tempo_simulado sts hora incoming ps ls = Inr 0"

section \<open>Small networks\<close>

text \<open>
  Three networks used below, all stations at latitude 0 and longitude 0, so that every
  distance is 0 and an edge costs its waiting time plus its transfer penalty. The first has
  two lines between the same two stations, the second is a single line through three
  stations, the third has an edge from a station to itself.
\<close>

definition estacoes_paralelas :: "(string \<times> real \<times> real) list" where
  "estacoes_paralelas = [(''O'', (0, 0)), (''A'', (0, 0)), (''D'', (0, 0))]"

definition arestas_paralelas :: edges_data where
  "arestas_paralelas =
     Dict [(''L1'', [[''O'', ''A''], [''A'', ''D'']]), (''L2'', [[''O'', ''A'']])]"

definition grafo_paralelo :: graph_t where
  "grafo_paralelo =
     [(''O'', [\<lparr>vizinho = ''A'', linha = ''L1''\<rparr>, \<lparr>vizinho = ''A'', linha = ''L2''\<rparr>]),
      (''A'', [\<lparr>vizinho = ''O'', linha = ''L1''\<rparr>, \<lparr>vizinho = ''D'', linha = ''L1''\<rparr>,
               \<lparr>vizinho = ''O'', linha = ''L2''\<rparr>]),
      (''D'', [\<lparr>vizinho = ''A'', linha = ''L1''\<rparr>])]"

definition estacoes_linha :: "(string \<times> real \<times> real) list" where
  "estacoes_linha = [(''X'', (0, 0)), (''Y'', (0, 0)), (''Z'', (0, 0))]"

definition arestas_linha :: edges_data where
  "arestas_linha = Dict [(''A'', [[''X'', ''Y''], [''Y'', ''Z'']])]"

definition grafo_linha :: graph_t where
  "grafo_linha =
     [(''X'', [\<lparr>vizinho = ''Y'', linha = ''A''\<rparr>]),
      (''Y'', [\<lparr>vizinho = ''X'', linha = ''A''\<rparr>, \<lparr>vizinho = ''Z'', linha = ''A''\<rparr>]),
      (''Z'', [\<lparr>vizinho = ''Y'', linha = ''A''\<rparr>])]"

definition rota_XYZ :: candidato where
  "rota_XYZ = \<lparr>caminho = [''X'', ''Y'', ''Z''], tempo = 3, linhas = [''A'', ''A''], trocas = 0\<rparr>"

definition rota_YZ :: candidato where
  "rota_YZ = \<lparr>caminho = [''Y'', ''Z''], tempo = 3 / 2, linhas = [''A''], trocas = 0\<rparr>"

definition roteador_linha :: "memo_t \<Rightarrow> roteador" where
  "roteador_linha m = \<lparr>stations = estacoes_linha, graph = grafo_linha, memo = m\<rparr>"

definition memo_apos_XZ :: memo_t where
  "memo_apos_XZ = [(''Y'', {''X''}) \<mapsto> [rota_YZ], (''X'', {}) \<mapsto> [rota_XYZ]]"

definition estacoes_laco :: "(string \<times> real \<times> real) list" where
  "estacoes_laco = [(''A'', (0, 0)), (''B'', (0, 0))]"

definition arestas_laco :: edges_data where
  "arestas_laco = Dict [(''L'', [[''A'', ''A''], [''A'', ''B'']])]"

definition grafo_laco :: graph_t where
  "grafo_laco =
     [(''A'', [\<lparr>vizinho = ''A'', linha = ''L''\<rparr>, \<lparr>vizinho = ''A'', linha = ''L''\<rparr>,
               \<lparr>vizinho = ''B'', linha = ''L''\<rparr>]),
      (''B'', [\<lparr>vizinho = ''A'', linha = ''L''\<rparr>])]"

definition rota_OAD_1 :: candidato where
  "rota_OAD_1 = \<lparr>caminho = [''O'', ''A'', ''D''], tempo = 3, linhas = [''L1'', ''L1''], trocas = 0\<rparr>"

definition rota_OAD_2 :: candidato where
  "rota_OAD_2 = \<lparr>caminho = [''O'', ''A'', ''D''], tempo = 3, linhas = [''L2'', ''L1''], trocas = 0\<rparr>"

definition memo_apos_OD :: memo_t where
  "memo_apos_OD =
     [(''A'', {''O''}) \<mapsto> [\<lparr>caminho = [''A'', ''D''], tempo = 3 / 2, linhas = [''L1''], trocas = 0\<rparr>],
      (''O'', {}) \<mapsto> [rota_OAD_1, rota_OAD_2]]"

definition roteador_paralelo :: "memo_t \<Rightarrow> roteador" where
  "roteador_paralelo m = \<lparr>stations = estacoes_paralelas, graph = grafo_paralelo, memo = m\<rparr>"

definition rota_AB :: candidato where
  "rota_AB = \<lparr>caminho = [''A'', ''B''], tempo = 3 / 2, linhas = [''L''], trocas = 0\<rparr>"

definition rota_AAB :: candidato where
  "rota_AAB = \<lparr>caminho = [''A'', ''A'', ''B''], tempo = 3, linhas = [''L'', ''L''], trocas = 0\<rparr>"

definition memo_apos_AB :: memo_t where
  "memo_apos_AB =
     [(''A'', {''A''}) \<mapsto> [rota_AB], (''A'', {}) \<mapsto> [rota_AAB, rota_AAB, rota_AB]]"

definition adj_A :: "conexao list" where
  "adj_A = [\<lparr>vizinho = ''A'', linha = ''L''\<rparr>, \<lparr>vizinho = ''A'', linha = ''L''\<rparr>,
            \<lparr>vizinho = ''B'', linha = ''L''\<rparr>]"

text \<open>
  Two edge texts for the stations X, Y, Z: the first names the undeclared station W in its
  second line, the second is the line X, Y, Z with blanks around a line.
\<close>

definition texto_XYW :: string where
  "texto_XYW = ''X - Y - A'' @ [CHR 0x0A] @ ''Y - W - A'' @ [CHR 0x0A]"

definition texto_XYZ :: string where
  "texto_XYZ = ''X - Y - A'' @ [CHR 0x0A] @ ''  Y - Z - A ''"

section \<open>The cache only grows\<close>

declare encontrar_caminhos_recursivo.simps [simp del] percorrer_conexoes.simps(2) [simp del]

lemma memo_cresce:
  "encontrar_caminhos_recursivo sts g m a d V h la = Inr (ps, m') \<Longrightarrow> m \<subseteq>\<^sub>m m'"
  "percorrer_conexoes sts g m a d V h la cs acc = Inr (ps, m') \<Longrightarrow> m \<subseteq>\<^sub>m m'"
proof (induction sts g m a d V h la and sts g m a d V h la cs acc
    arbitrary: ps m' and ps m'
    rule: encontrar_caminhos_recursivo_percorrer_conexoes.induct)
  case (1 sts g m atual destino visitados hora_atual linha_anterior)
  show ?case
  proof (cases "atual \<noteq> destino \<and> m (atual, visitados) = None")
    case False
    with "1.prems" show ?thesis
      by (auto simp: encontrar_caminhos_recursivo.simps split: if_splits option.splits)
  next
    case True
    with "1.prems" obtain cs m2 where
      cs: "map_of g atual = Some cs" and
      lp: "percorrer_conexoes sts g m atual destino visitados hora_atual linha_anterior cs []
            = Inr (ps, m2)" and
      m': "m' = m2((atual, visitados) \<mapsto> ps)"
      by (auto simp: encontrar_caminhos_recursivo.simps split: option.splits sum.splits)
    from "1.IH" [OF _ _ cs lp] True have "m \<subseteq>\<^sub>m m2" by simp
    with True show ?thesis unfolding m' map_le_def by (auto simp: domIff)
  qed
next
  case (2 sts g m atual destino visitados hora_atual linha_anterior acc)
  then show ?case by simp
next
  case (3 sts g m atual destino visitados hora_atual linha_anterior conexao resto acc)
  show ?case
  proof (cases "vizinho conexao \<in> visitados")
    case True
    with "3.prems" "3.IH"(3) show ?thesis
      by (simp add: percorrer_conexoes.simps)
  next
    case False
    with "3.prems" obtain td hp subs m1 where
      td: "get_tempo_deslocamento sts atual (vizinho conexao) = Inr td" and
      hp: "datetime_add hora_atual (timedelta_minutes (get_tempo_espera hora_atual + td +
             (if linha_anterior \<noteq> None \<and> linha_anterior \<noteq> Some (linha conexao)
              then PENALIDADE_TROCA_LINHA_MIN else 0))) = Inr hp" and
      sub: "encontrar_caminhos_recursivo sts g m (vizinho conexao) destino
             (insert atual visitados) hp (Some (linha conexao)) = Inr (subs, m1)" and
      rest: "percorrer_conexoes sts g m1 atual destino visitados hora_atual linha_anterior resto
              (acc @ map (caminho_completo atual (linha conexao)
                 (get_tempo_espera hora_atual + td +
                    (if linha_anterior \<noteq> None \<and> linha_anterior \<noteq> Some (linha conexao)
                     then PENALIDADE_TROCA_LINHA_MIN else 0))
                 (linha_anterior \<noteq> None \<and> linha_anterior \<noteq> Some (linha conexao))) subs)
             = Inr (ps, m')"
      by (auto simp: percorrer_conexoes.simps Let_def split: sum.splits)
    have a: "m \<subseteq>\<^sub>m m1"
      by (rule "3.IH"(1) [OF False td refl refl refl hp sub])
    have b: "m1 \<subseteq>\<^sub>m m'"
      by (rule "3.IH"(2) [OF False td refl refl refl hp sub refl rest])
    from a b show ?thesis by (rule map_le_trans)
  qed
qed


lemma encontrar_caminho_memo:
  assumes "encontrar_caminho r origem destino hora modo = Inr (res, r')"
  shows "memo r \<subseteq>\<^sub>m memo r' \<and> stations r' = stations r \<and> graph r' = graph r"
proof (cases "origem \<notin> keys (stations r) \<or> destino \<notin> keys (stations r)")
  case True
  with assms show ?thesis by (simp add: encontrar_caminho_def)
next
  case False
  with assms obtain t todos m' where
    e: "encontrar_caminhos_recursivo (stations r) (graph r) (memo r) origem destino {} t None
          = Inr (todos, m')" and r': "r' = r\<lparr>memo := m'\<rparr>"
    by (auto simp: encontrar_caminho_def Let_def split: sum.splits if_splits)
  from memo_cresce(1) [OF e] r' show ?thesis by simp
qed


section \<open>Evaluation on the small networks\<close>

lemmas enum_simps = encontrar_caminhos_recursivo.simps percorrer_conexoes.simps


lemma strip_letra:
  "strip ''O'' = ''O''" "strip ''A'' = ''A''" "strip ''D'' = ''D''"
  "strip ''X'' = ''X''" "strip ''Y'' = ''Y''" "strip ''Z'' = ''Z''" "strip ''B'' = ''B''"
  by (simp_all add: strip_def isspace_def)

lemma haversine_origem:
  "map_of sts a = Some (0, 0) \<Longrightarrow> map_of sts b = Some (0, 0) \<Longrightarrow> haversine sts a b = Inr 0"
  by (simp add: haversine_def get_coords_def radians_def atan2_def Let_def)

lemma strptime_10: "strptime_HM ''10:00'' = Inr 36000000000"
  by (simp add: strptime_HM_def match_H_def match_M_def isdigit_def digit_def clock_of_def)

lemma strptime_12: "strptime_HM ''12:00'' = Inr 43200000000"
  by (simp add: strptime_HM_def match_H_def match_M_def isdigit_def digit_def clock_of_def)

lemma strptime_25: "strptime_HM ''25:00'' = Inl ValueError"
  by (simp add: strptime_HM_def match_H_def match_M_def isdigit_def digit_def clock_of_def)

lemmas avaliar = Let_def get_tempo_espera_def hour_def datetime_add_def
  timedelta_minutes_def py_round_def datetime_min_def datetime_max_def caminho_completo_def
  PENALIDADE_TROCA_LINHA_MIN_def VELOCIDADE_TREM_KMH_def get_tempo_deslocamento_def
  haversine_origem edge_time_def

lemmas construir = init_def build_graph_def keys_def add_edge_def append_adj_def Let_def
  strip_letra

lemma init_paralelo:
  "init estacoes_paralelas arestas_paralelas
     = Inr \<lparr>stations = estacoes_paralelas, graph = grafo_paralelo, memo = Map.empty\<rparr>"
  by (simp add: construir estacoes_paralelas_def arestas_paralelas_def grafo_paralelo_def)

lemma init_linha: "init estacoes_linha arestas_linha = Inr (roteador_linha Map.empty)"
  by (simp add: construir estacoes_linha_def arestas_linha_def grafo_linha_def roteador_linha_def)

lemma init_laco:
  "init estacoes_laco arestas_laco
     = Inr \<lparr>stations = estacoes_laco, graph = grafo_laco, memo = Map.empty\<rparr>"
  by (simp add: construir estacoes_laco_def arestas_laco_def grafo_laco_def)

lemma enum_paralelo:
  "map_sum id fst (encontrar_caminhos_recursivo estacoes_paralelas grafo_paralelo Map.empty
      ''O'' ''D'' {} 36000000000 None)
   = Inr [\<lparr>caminho = [''O'', ''A'', ''D''], tempo = 3, linhas = [''L1'', ''L1''], trocas = 0\<rparr>,
          \<lparr>caminho = [''O'', ''A'', ''D''], tempo = 3, linhas = [''L2'', ''L1''], trocas = 0\<rparr>]"
  by (simp add: enum_simps grafo_paralelo_def estacoes_paralelas_def avaliar)

lemma enum_linha_XZ:
  "encontrar_caminhos_recursivo estacoes_linha grafo_linha Map.empty
      ''X'' ''Z'' {} 36000000000 None = Inr ([rota_XYZ], memo_apos_XZ)"
  by (simp add: enum_simps grafo_linha_def estacoes_linha_def avaliar rota_XYZ_def rota_YZ_def memo_apos_XZ_def)

lemma enum_linha_XY_depois:
  "encontrar_caminhos_recursivo estacoes_linha grafo_linha memo_apos_XZ
      ''X'' ''Y'' {} t None = Inr ([rota_XYZ], memo_apos_XZ)"
  by (simp add: enum_simps memo_apos_XZ_def)

lemma enum_linha_XY_novo:
  "map_sum id fst (encontrar_caminhos_recursivo estacoes_linha grafo_linha Map.empty
      ''X'' ''Y'' {} 36000000000 None)
    = Inr [\<lparr>caminho = [''X'', ''Y''], tempo = 3 / 2, linhas = [''A''], trocas = 0\<rparr>]"
  by (simp add: enum_simps grafo_linha_def estacoes_linha_def avaliar)

lemma enum_laco:
  "map_sum id fst (encontrar_caminhos_recursivo estacoes_laco grafo_laco Map.empty
      ''A'' ''B'' {} 36000000000 None)
   = Inr [\<lparr>caminho = [''A'', ''A'', ''B''], tempo = 3, linhas = [''L'', ''L''], trocas = 0\<rparr>,
          \<lparr>caminho = [''A'', ''A'', ''B''], tempo = 3, linhas = [''L'', ''L''], trocas = 0\<rparr>,
          \<lparr>caminho = [''A'', ''B''], tempo = 3 / 2, linhas = [''L''], trocas = 0\<rparr>]"
  by (simp add: enum_simps grafo_laco_def estacoes_laco_def avaliar)

lemma enum_laco_memo:
  "encontrar_caminhos_recursivo estacoes_laco grafo_laco Map.empty
      ''A'' ''B'' {} 36000000000 None = Inr ([rota_AAB, rota_AAB, rota_AB], memo_apos_AB)"
  by (simp add: enum_simps grafo_laco_def estacoes_laco_def avaliar rota_AB_def rota_AAB_def
      memo_apos_AB_def)

lemma enum_paralelo_memo:
  "encontrar_caminhos_recursivo estacoes_paralelas grafo_paralelo Map.empty
      ''O'' ''D'' {} 36000000000 None = Inr ([rota_OAD_1, rota_OAD_2], memo_apos_OD)"
  by (simp add: enum_simps grafo_paralelo_def estacoes_paralelas_def avaliar rota_OAD_1_def
      rota_OAD_2_def memo_apos_OD_def)


lemma strptime_exemplos:
  "strptime_HM ''9:5'' = Inr (clock_of 9 5)"
  "strptime_HM ''23:59'' = Inr (clock_of 23 59)"
  "strptime_HM ''24:00'' = Inl ValueError"
  "strptime_HM ''10:60'' = Inl ValueError"
  "strptime_HM ''10h00'' = Inl ValueError"
  "strptime_HM '''' = Inl ValueError"
  "strptime_HM ''10:00 '' = Inl ValueError"
  by (simp_all add: strptime_HM_def match_H_def match_M_def isdigit_def digit_def)

section \<open>Cost model: waiting time\<close>

text \<open>
  C9: the waiting time depends on the instant only through its hour: below 11 it is 1.5,
  from 18 on it is 2.0, otherwise 1.0; 11:00 and 17:59 are in the middle bracket and 18:00
  is in the late one.
\<close>

theorem get_tempo_espera_brackets:
  "get_tempo_espera t = (if hour t < 11 then 3 / 2 else if 18 \<le> hour t then 2 else 1)
   \<and> get_tempo_espera (clock_of 11 0) = 1
   \<and> get_tempo_espera (clock_of 17 59) = 1
   \<and> get_tempo_espera (clock_of 18 0) = 2
   \<and> get_tempo_espera (clock_of 10 59) = 3 / 2"
  by (simp add: get_tempo_espera_def hour_def clock_of_def)

section \<open>Enumerated candidates against the reference definitions\<close>

text \<open>
  C1: every candidate's total time should be the sum of the edge times along its path, each
  computed at the simulated clock and for the line actually taken. On a new router built
  from \<open>arestas_paralelas\<close> the query from O to D at 10:00 enumerates two candidates; the
  second, which leaves O on line L2 and continues on line L1, is built from the suffix
  cached for the arrival on line L1 and carries the time 3, while its edges sum to 6.
  On the router built from \<open>arestas_linha\<close>, the query from X to Z at 10:00 followed by the
  same query at 12:00 answers the second from the cache: the candidate carries the time 3
  of the early bracket, while its edges at 12:00 sum to 2.
\<close>

theorem tempo_difere_do_simulado:
  "init estacoes_paralelas arestas_paralelas = Inr (roteador_paralelo Map.empty)
   \<and> strptime_HM ''10:00'' = Inr 36000000000
   \<and> map_sum id
        (map (\<lambda>p. (caminho p, linhas p, tempo p,
                    tempo_simulado estacoes_paralelas 36000000000 None (caminho p) (linhas p)))
           \<circ> fst)
        (encontrar_caminhos_recursivo estacoes_paralelas grafo_paralelo Map.empty
           ''O'' ''D'' {} 36000000000 None)
     = Inr [([''O'', ''A'', ''D''], [''L1'', ''L1''], 3, Inr 3),
            ([''O'', ''A'', ''D''], [''L2'', ''L1''], 3, Inr 6)]
   \<and> init estacoes_linha arestas_linha = Inr (roteador_linha Map.empty)
   \<and> encontrar_caminhos_recursivo estacoes_linha grafo_linha Map.empty
         ''X'' ''Z'' {} 36000000000 None = Inr ([rota_XYZ], memo_apos_XZ)
   \<and> strptime_HM ''12:00'' = Inr 43200000000
   \<and> encontrar_caminhos_recursivo estacoes_linha grafo_linha memo_apos_XZ
         ''X'' ''Z'' {} 43200000000 None = Inr ([rota_XYZ], memo_apos_XZ)
   \<and> tempo rota_XYZ = 3
   \<and> tempo_simulado estacoes_linha 43200000000 None (caminho rota_XYZ) (linhas rota_XYZ)
       = Inr 2"
proof -
  have a: "init estacoes_paralelas arestas_paralelas = Inr (roteador_paralelo Map.empty)"
    by (simp add: init_paralelo roteador_paralelo_def)
  have b: "tempo_simulado estacoes_paralelas 36000000000 None [''O'', ''A'', ''D'']
             [''L1'', ''L1''] = Inr 3"
    by (simp add: estacoes_paralelas_def avaliar)
  have c: "tempo_simulado estacoes_paralelas 36000000000 None [''O'', ''A'', ''D'']
             [''L2'', ''L1''] = Inr 6"
    by (simp add: estacoes_paralelas_def avaliar)
  have d: "map_sum id
        (map (\<lambda>p. (caminho p, linhas p, tempo p,
                    tempo_simulado estacoes_paralelas 36000000000 None (caminho p) (linhas p)))
           \<circ> fst)
        (encontrar_caminhos_recursivo estacoes_paralelas grafo_paralelo Map.empty
           ''O'' ''D'' {} 36000000000 None)
     = Inr [([''O'', ''A'', ''D''], [''L1'', ''L1''], 3, Inr 3),
            ([''O'', ''A'', ''D''], [''L2'', ''L1''], 3, Inr 6)]"
    by (simp add: enum_paralelo_memo rota_OAD_1_def rota_OAD_2_def b c
        del: tempo_simulado.simps)
  have e: "encontrar_caminhos_recursivo estacoes_linha grafo_linha memo_apos_XZ
         ''X'' ''Z'' {} 43200000000 None = Inr ([rota_XYZ], memo_apos_XZ)"
    by (simp add: enum_simps memo_apos_XZ_def)
  have f: "tempo rota_XYZ = 3" by (simp add: rota_XYZ_def)
  have g: "tempo_simulado estacoes_linha 43200000000 None (caminho rota_XYZ) (linhas rota_XYZ)
       = Inr 2"
    by (simp add: rota_XYZ_def estacoes_linha_def avaliar)
  from a strptime_10 d init_linha enum_linha_XZ strptime_12 e f g show ?thesis
    by (intro conjI)
qed

text \<open>
  C3: a candidate's transfer count should be the number of adjacent pairs of its line
  sequence that differ. In the same query the candidate with the line sequence L2, L1
  carries the count 0, and one adjacent pair of its lines differs.
\<close>

theorem trocas_difere_da_contagem:
  "map_sum id (map (\<lambda>p. (linhas p, trocas p, contar_trocas (linhas p))) \<circ> fst)
        (encontrar_caminhos_recursivo (stations (roteador_paralelo Map.empty))
           (graph (roteador_paralelo Map.empty)) (memo (roteador_paralelo Map.empty))
           ''O'' ''D'' {} 36000000000 None)
     = Inr [([''L1'', ''L1''], 0, 0), ([''L2'', ''L1''], 0, 1)]"
  by (simp add: roteador_paralelo_def enum_paralelo_memo rota_OAD_1_def rota_OAD_2_def
      contar_trocas_def)


section \<open>The cache across queries\<close>

text \<open>
  C2: the cache belongs to the router, its keys are pairs of a station and a visited set
  with no destination, and a query never removes or changes an entry. On the router built
  from \<open>arestas_linha\<close>, the query from X to Z followed by the query from X to Y on the same
  router answers the second with the route cached for the first, which ends at Z; a new
  router answers the second query with the route from X to Y.
\<close>

theorem cache_sem_destino:
  "(\<forall>r origem destino hora modo res r'.
       encontrar_caminho r origem destino hora modo = Inr (res, r')
       \<longrightarrow> memo r \<subseteq>\<^sub>m memo r' \<and> stations r' = stations r \<and> graph r' = graph r)
   \<and> init estacoes_linha arestas_linha = Inr (roteador_linha Map.empty)
   \<and> encontrar_caminho (roteador_linha Map.empty) ''X'' ''Z'' ''10:00'' ''menor''
       = Inr (Rota rota_XYZ, roteador_linha memo_apos_XZ)
   \<and> encontrar_caminho (roteador_linha memo_apos_XZ) ''X'' ''Y'' ''10:00'' ''menor''
       = Inr (Rota rota_XYZ, roteador_linha memo_apos_XZ)
   \<and> last (caminho rota_XYZ) = ''Z''
   \<and> map_sum id fst (encontrar_caminho (roteador_linha Map.empty) ''X'' ''Y'' ''10:00'' ''menor'')
       = Inr (Rota \<lparr>caminho = [''X'', ''Y''], tempo = 3 / 2, linhas = [''A''], trocas = 0\<rparr>)"
proof -
  have a: "\<forall>r origem destino hora modo res r'.
       encontrar_caminho r origem destino hora modo = Inr (res, r')
       \<longrightarrow> memo r \<subseteq>\<^sub>m memo r' \<and> stations r' = stations r \<and> graph r' = graph r"
    using encontrar_caminho_memo by blast
  have k: "''X'' \<in> keys estacoes_linha" "''Y'' \<in> keys estacoes_linha" "''Z'' \<in> keys estacoes_linha"
    by (simp_all add: keys_def estacoes_linha_def)
  have b: "encontrar_caminho (roteador_linha Map.empty) ''X'' ''Z'' ''10:00'' ''menor''
       = Inr (Rota rota_XYZ, roteador_linha memo_apos_XZ)"
    by (simp add: encontrar_caminho_def roteador_linha_def k strptime_10 enum_linha_XZ
        min_key_def)
  have c: "encontrar_caminho (roteador_linha memo_apos_XZ) ''X'' ''Y'' ''10:00'' ''menor''
       = Inr (Rota rota_XYZ, roteador_linha memo_apos_XZ)"
    by (simp add: encontrar_caminho_def roteador_linha_def k strptime_10 enum_linha_XY_depois
        min_key_def)
  have d: "last (caminho rota_XYZ) = ''Z''" by (simp add: rota_XYZ_def)
  have e: "map_sum id fst (encontrar_caminho (roteador_linha Map.empty) ''X'' ''Y'' ''10:00'' ''menor'')
       = Inr (Rota \<lparr>caminho = [''X'', ''Y''], tempo = 3 / 2, linhas = [''A''], trocas = 0\<rparr>)"
    using enum_linha_XY_novo
    by (auto simp: encontrar_caminho_def roteador_linha_def k strptime_10 min_key_def
        split: sum.splits)
  from a init_linha b c d e show ?thesis by blast
qed

theorem cache_sem_destino_witness:
  "encontrar_caminho (roteador_linha Map.empty) ''X'' ''Z'' ''10:00'' ''menor''
       = Inr (Rota rota_XYZ, roteador_linha memo_apos_XZ)
   \<and> memo (roteador_linha Map.empty) \<subseteq>\<^sub>m memo (roteador_linha memo_apos_XZ)
   \<and> memo_apos_XZ (''X'', {}) = Some [rota_XYZ]"
  using cache_sem_destino by (simp add: memo_apos_XZ_def roteador_linha_def)


section \<open>Simple paths\<close>

text \<open>
  C4: every candidate should be a simple path from the origin to the destination. On a new
  router built from \<open>arestas_laco\<close>, which has an edge from A to A, the query from A to B in
  the mode \<^verbatim>\<open>maior\<close> selects a path that visits A twice. On the router built from
  \<open>arestas_paralelas\<close>, the query from O to D followed by the query from O to A selects,
  for the second, a path that ends at D.
\<close>

theorem caminho_repete_estacao:
  "init estacoes_laco arestas_laco
     = Inr \<lparr>stations = estacoes_laco, graph = grafo_laco, memo = Map.empty\<rparr>
   \<and> map_sum id fst
       (encontrar_caminho \<lparr>stations = estacoes_laco, graph = grafo_laco, memo = Map.empty\<rparr>
          ''A'' ''B'' ''10:00'' ''maior'')
     = Inr (Rota \<lparr>caminho = [''A'', ''A'', ''B''], tempo = 3, linhas = [''L'', ''L''], trocas = 0\<rparr>)
   \<and> \<not> distinct [''A'', ''A'', ''B'']
   \<and> init estacoes_paralelas arestas_paralelas = Inr (roteador_paralelo Map.empty)
   \<and> encontrar_caminho (roteador_paralelo Map.empty) ''O'' ''D'' ''10:00'' ''menor''
       = Inr (Rota rota_OAD_1, roteador_paralelo memo_apos_OD)
   \<and> encontrar_caminho (roteador_paralelo memo_apos_OD) ''O'' ''A'' ''10:00'' ''menor''
       = Inr (Rota rota_OAD_1, roteador_paralelo memo_apos_OD)
   \<and> last (caminho rota_OAD_1) = ''D''"
proof -
  have k: "''A'' \<in> keys estacoes_laco" "''B'' \<in> keys estacoes_laco"
    by (simp_all add: keys_def estacoes_laco_def)
  have a: "map_sum id fst
       (encontrar_caminho \<lparr>stations = estacoes_laco, graph = grafo_laco, memo = Map.empty\<rparr>
          ''A'' ''B'' ''10:00'' ''maior'')
     = Inr (Rota \<lparr>caminho = [''A'', ''A'', ''B''], tempo = 3, linhas = [''L'', ''L''], trocas = 0\<rparr>)"
    using enum_laco
    by (auto simp: encontrar_caminho_def k strptime_10 max_key_def split: sum.splits)
  have b: "\<not> distinct [''A'', ''A'', ''B'']" by simp
  have c: "init estacoes_paralelas arestas_paralelas = Inr (roteador_paralelo Map.empty)"
    by (simp add: init_paralelo roteador_paralelo_def)
  have kp: "''O'' \<in> keys estacoes_paralelas" "''A'' \<in> keys estacoes_paralelas"
      "''D'' \<in> keys estacoes_paralelas"
    by (simp_all add: keys_def estacoes_paralelas_def)
  have m: "min_key tempo rota_OAD_1 [rota_OAD_2] = rota_OAD_1"
    by (simp add: min_key_def rota_OAD_1_def rota_OAD_2_def)
  have d: "encontrar_caminho (roteador_paralelo Map.empty) ''O'' ''D'' ''10:00'' ''menor''
       = Inr (Rota rota_OAD_1, roteador_paralelo memo_apos_OD)"
    by (simp add: encontrar_caminho_def roteador_paralelo_def kp strptime_10
        enum_paralelo_memo m)
  have h: "encontrar_caminhos_recursivo estacoes_paralelas grafo_paralelo memo_apos_OD
         ''O'' ''A'' {} t None = Inr ([rota_OAD_1, rota_OAD_2], memo_apos_OD)" for t
    by (simp add: enum_simps memo_apos_OD_def)
  have e: "encontrar_caminho (roteador_paralelo memo_apos_OD) ''O'' ''A'' ''10:00'' ''menor''
       = Inr (Rota rota_OAD_1, roteador_paralelo memo_apos_OD)"
    by (simp add: encontrar_caminho_def roteador_paralelo_def kp strptime_10 h m)
  have f: "last (caminho rota_OAD_1) = ''D''" by (simp add: rota_OAD_1_def)
  from init_laco a b c d e f show ?thesis by (intro conjI)
qed

theorem caminho_repete_estacao_witness:
  "\<exists>p r'. encontrar_caminho \<lparr>stations = estacoes_laco, graph = grafo_laco, memo = Map.empty\<rparr>
             ''A'' ''B'' ''10:00'' ''maior'' = Inr (Rota p, r')
          \<and> ''A'' \<in> keys estacoes_laco \<and> ''B'' \<in> keys estacoes_laco
          \<and> hd (caminho p) = ''A'' \<and> last (caminho p) = ''B'' \<and> \<not> distinct (caminho p)"
proof -
  let ?run = "encontrar_caminho \<lparr>stations = estacoes_laco, graph = grafo_laco, memo = Map.empty\<rparr>
             ''A'' ''B'' ''10:00'' ''maior''"
  let ?p = "\<lparr>caminho = [''A'', ''A'', ''B''], tempo = 3, linhas = [''L'', ''L''], trocas = 0\<rparr>"
  from caminho_repete_estacao have "map_sum id fst ?run = Inr (Rota ?p)" by blast
  then obtain r' where "?run = Inr (Rota ?p, r')"
    by (cases ?run) auto
  then show ?thesis by (auto simp: keys_def estacoes_laco_def)
qed

section \<open>Route selector: the median mode\<close>

text \<open>
  C5: when the enumeration returns a non-empty list, the mode \<^verbatim>\<open>medio\<close> selects the
  element at index \<open>(n - 1) div 2\<close> of the list sorted by total time, \<open>n\<close> the number of
  candidates: an element of the list, the lower of the two middle ones when \<open>n\<close> is even.
\<close>

theorem medio_mediana_inferior:
  assumes "origem \<in> keys (stations r)" and "destino \<in> keys (stations r)"
    and "strptime_HM hora_inicio_str = Inr hora_inicio"
    and "encontrar_caminhos_recursivo (stations r) (graph r) (memo r) origem destino {}
           hora_inicio None = Inr (todos_caminhos, m')"
    and "todos_caminhos \<noteq> []"
  shows "encontrar_caminho r origem destino hora_inicio_str ''medio''
           = Inr (Rota (sort_key tempo todos_caminhos ! ((length todos_caminhos - 1) div 2)),
                  r\<lparr>memo := m'\<rparr>)
         \<and> sorted (map tempo (sort_key tempo todos_caminhos))
         \<and> mset (sort_key tempo todos_caminhos) = mset todos_caminhos
         \<and> (length todos_caminhos - 1) div 2 < length todos_caminhos
         \<and> sort_key tempo todos_caminhos ! ((length todos_caminhos - 1) div 2)
             \<in> set todos_caminhos
         \<and> (if even (length todos_caminhos)
             then (length todos_caminhos - 1) div 2 = length todos_caminhos div 2 - 1
             else (length todos_caminhos - 1) div 2 = length todos_caminhos div 2)"
proof -
  let ?n = "length todos_caminhos"
  let ?s = "sort_key tempo todos_caminhos"
  from assms(5) have n: "0 < ?n" by simp
  then have idx: "(?n - 1) div 2 < ?n" by arith
  have run: "encontrar_caminho r origem destino hora_inicio_str ''medio''
           = Inr (Rota (?s ! ((?n - 1) div 2)), r\<lparr>memo := m'\<rparr>)"
    using assms by (simp add: encontrar_caminho_def Let_def)
  have srt: "sorted (map tempo ?s)" by (rule sorted_sort_key)
  have ms: "mset ?s = mset todos_caminhos" by simp
  from idx have "(?n - 1) div 2 < length ?s" by simp
  then have "?s ! ((?n - 1) div 2) \<in> set ?s" by (rule nth_mem)
  then have mem: "?s ! ((?n - 1) div 2) \<in> set todos_caminhos" by simp
  have par: "if even ?n then (?n - 1) div 2 = ?n div 2 - 1 else (?n - 1) div 2 = ?n div 2"
    using n by (auto elim!: evenE oddE)
  from run srt ms idx mem par show ?thesis by blast
qed

theorem medio_mediana_inferior_witness:
  "encontrar_caminho (roteador_paralelo Map.empty) ''O'' ''D'' ''10:00'' ''medio''
     = Inr (Rota rota_OAD_1, roteador_paralelo memo_apos_OD)
   \<and> sort_key tempo [rota_OAD_1, rota_OAD_2] ! ((2 - 1) div 2) = rota_OAD_1"
proof -
  have k: "''O'' \<in> keys (stations (roteador_paralelo Map.empty))"
      "''D'' \<in> keys (stations (roteador_paralelo Map.empty))"
    by (simp_all add: keys_def estacoes_paralelas_def roteador_paralelo_def)
  have e: "encontrar_caminhos_recursivo (stations (roteador_paralelo Map.empty))
      (graph (roteador_paralelo Map.empty)) (memo (roteador_paralelo Map.empty))
      ''O'' ''D'' {} 36000000000 None = Inr ([rota_OAD_1, rota_OAD_2], memo_apos_OD)"
    by (simp add: roteador_paralelo_def enum_paralelo_memo)
  have s: "sort_key tempo [rota_OAD_1, rota_OAD_2] ! ((2 - 1) div 2) = rota_OAD_1"
    by (simp add: rota_OAD_1_def rota_OAD_2_def)
  from medio_mediana_inferior [OF k strptime_10 e] s show ?thesis
    by (simp add: roteador_paralelo_def)
qed


section \<open>Start time that does not parse\<close>

text \<open>
  C10: when the start time does not match \<^verbatim>\<open>%H:%M\<close>, the parse raises \<^verbatim>\<open>ValueError\<close>, and
  \<^verbatim>\<open>encontrar_caminho\<close> raises it whenever both stations exist; when a station does not
  exist the query has already been reported as such, the station check coming first.
\<close>

lemma strptime_HM_erro: "strptime_HM s = Inl e \<Longrightarrow> e = ValueError"
  by (auto simp: strptime_HM_def split: list.splits if_splits prod.splits)

theorem hora_invalida_nao_tratada:
  assumes "strptime_HM hora_inicio_str = Inl e"
  shows "e = ValueError
         \<and> (origem \<in> keys (stations r) \<and> destino \<in> keys (stations r)
              \<longrightarrow> encontrar_caminho r origem destino hora_inicio_str modo = Inl ValueError)
         \<and> (origem \<notin> keys (stations r) \<or> destino \<notin> keys (stations r)
              \<longrightarrow> encontrar_caminho r origem destino hora_inicio_str modo
                    = Inr (EstacaoInexistente, r))"
proof -
  from assms have e: "e = ValueError" by (rule strptime_HM_erro)
  with assms show ?thesis by (simp add: encontrar_caminho_def)
qed

theorem hora_invalida_nao_tratada_witness:
  "strptime_HM ''25:00'' = Inl ValueError
   \<and> encontrar_caminho (roteador_linha Map.empty) ''X'' ''Z'' ''25:00'' ''menor'' = Inl ValueError
   \<and> encontrar_caminho (roteador_linha Map.empty) ''X'' ''W'' ''25:00'' ''menor''
       = Inr (EstacaoInexistente, roteador_linha Map.empty)"
  using hora_invalida_nao_tratada [OF strptime_25, of "''X''" "roteador_linha Map.empty" "''Z''" "''menor''"]
    hora_invalida_nao_tratada [OF strptime_25, of "''X''" "roteador_linha Map.empty" "''W''" "''menor''"]
  by (simp add: strptime_25 roteador_linha_def keys_def estacoes_linha_def)

section \<open>Built graphs\<close>

lemma keys_append_adj: "keys (append_adj k c g) = keys g"
  by (force simp: keys_def append_adj_def split: if_splits)

lemma keys_add_edge: "keys (add_edge a b l g) = keys g"
  by (simp add: add_edge_def keys_append_adj)

lemma map_of_append_adj:
  "map_of (append_adj k c g) a = map_option (\<lambda>cs. if a = k then cs @ [c] else cs) (map_of g a)"
  by (induction g) (auto simp: append_adj_def)

lemma map_of_add_edge:
  "map_of (add_edge origem destino l g) a =
     map_option (\<lambda>cs. cs @ (if a = origem then [\<lparr>vizinho = destino, linha = l\<rparr>] else [])
                         @ (if a = destino then [\<lparr>vizinho = origem, linha = l\<rparr>] else []))
       (map_of g a)"
  by (cases "map_of g a") (auto simp: add_edge_def map_of_append_adj)

lemma keys_map_of: "a \<in> keys g \<longleftrightarrow> map_of g a \<noteq> None"
  by (simp add: keys_def map_of_eq_None_iff)

lemma simetrico_add_edge:
  assumes sim: "simetrico g" and o: "origem \<in> keys g" and d: "destino \<in> keys g"
  shows "simetrico (add_edge origem destino l g)"
  unfolding simetrico_def
proof (intro allI impI)
  fix a cs c
  assume look: "map_of (add_edge origem destino l g) a = Some cs" and c: "c \<in> set cs"
  from o d obtain co cd where co: "map_of g origem = Some co" and cd: "map_of g destino = Some cd"
    by (auto simp: keys_map_of)
  from look obtain cs0 where cs0: "map_of g a = Some cs0"
    and cs: "cs = cs0 @ (if a = origem then [\<lparr>vizinho = destino, linha = l\<rparr>] else [])
                     @ (if a = destino then [\<lparr>vizinho = origem, linha = l\<rparr>] else [])"
    by (auto simp: map_of_add_edge)
  from c cs consider (old) "c \<in> set cs0"
    | (fwd) "a = origem" "c = \<lparr>vizinho = destino, linha = l\<rparr>"
    | (bwd) "a = destino" "c = \<lparr>vizinho = origem, linha = l\<rparr>"
    by (auto split: if_splits)
  then show "\<exists>cs'. map_of (add_edge origem destino l g) (vizinho c) = Some cs'
            \<and> \<lparr>vizinho = a, linha = linha c\<rparr> \<in> set cs'"
  proof cases
    case old
    with sim cs0 obtain cs' where "map_of g (vizinho c) = Some cs'"
      "\<lparr>vizinho = a, linha = linha c\<rparr> \<in> set cs'"
      unfolding simetrico_def by blast
    then show ?thesis by (simp add: map_of_add_edge)
  next
    case fwd
    with cd show ?thesis by (simp add: map_of_add_edge)
  next
    case bwd
    with co show ?thesis by (simp add: map_of_add_edge)
  qed
qed

lemma build_pares_inv:
  "simetrico g \<Longrightarrow> simetrico (build_pares nome ps g) \<and> keys (build_pares nome ps g) = keys g"
proof (induction ps arbitrary: g)
  case Nil
  then show ?case by simp
next
  case (Cons par ps)
  show ?case
  proof (cases "par_declarado (keys g) par")
    case True
    then have step: "build_pares nome (par # ps) g
        = build_pares nome ps (add_edge (strip (par ! 0)) (strip (par ! 1)) nome g)"
      by (simp add: par_declarado_def Let_def)
    from True Cons.prems have "simetrico (add_edge (strip (par ! 0)) (strip (par ! 1)) nome g)"
      by (intro simetrico_add_edge) (simp_all add: par_declarado_def)
    from Cons.IH [OF this] show ?thesis by (simp only: step keys_add_edge) 
  next
    case False
    then have "build_pares nome (par # ps) g = build_pares nome ps g"
      by (auto simp: par_declarado_def Let_def)
    with Cons.IH [OF Cons.prems] show ?thesis by simp
  qed
qed

lemma build_dict_inv:
  "simetrico g \<Longrightarrow> simetrico (build_dict items g) \<and> keys (build_dict items g) = keys g"
proof (induction items arbitrary: g)
  case Nil
  then show ?case by simp
next
  case (Cons item items)
  obtain nome ps where item: "item = (nome, ps)" by (cases item)
  from build_pares_inv [OF Cons.prems, of nome ps]
  have a: "simetrico (build_pares nome ps g)" and b: "keys (build_pares nome ps g) = keys g"
    by simp_all
  from Cons.IH [OF a] b show ?case by (simp add: item)
qed

lemma build_lines_inv:
  "simetrico g \<Longrightarrow> build_lines ls g = Inr g' \<Longrightarrow> simetrico g' \<and> keys g' = keys g"
proof (induction ls arbitrary: g)
  case Nil
  then show ?case by simp
next
  case (Cons line ls)
  from Cons.prems(2) obtain origem destino nome where
    f: "map strip (split '' - '' line) = [origem, destino, nome]"
    and o: "origem \<in> keys g" and d: "destino \<in> keys g"
    and rest: "build_lines ls (add_edge origem destino nome g) = Inr g'"
    by (auto split: list.splits if_splits)
  from Cons.prems(1) o d have "simetrico (add_edge origem destino nome g)"
    by (rule simetrico_add_edge)
  from Cons.IH [OF this rest] show ?case by (simp add: keys_add_edge)
qed

lemma grafo_inicial:
  "simetrico (map (\<lambda>(name, _). (name, [])) sts)"
  "keys (map (\<lambda>(name, _). (name, [])) sts) = keys sts"
proof -
  have "map_of (map (\<lambda>(name, _). (name, [])) sts) a = Some cs \<Longrightarrow> cs = []" for a cs
    by (induction sts) (auto split: if_splits)
  then show "simetrico (map (\<lambda>(name, _). (name, [])) sts)"
    unfolding simetrico_def by fastforce
  show "keys (map (\<lambda>(name, _). (name, [])) sts) = keys sts"
    by (force simp: keys_def)
qed

lemma build_graph_inv:
  assumes "build_graph sts data = Inr g"
  shows "simetrico g \<and> keys g = keys sts"
proof (cases data)
  case (Dict items)
  with assms have "g = build_dict items (map (\<lambda>(name, _). (name, [])) sts)"
    by (simp add: build_graph_def)
  with build_dict_inv [OF grafo_inicial(1), of items sts] grafo_inicial(2) [of sts]
  show ?thesis by simp
next
  case (Text texto)
  with assms have "build_lines (split [CHR 0x0A] (strip texto)) (map (\<lambda>(name, _). (name, [])) sts)
      = Inr g"
    by (simp add: build_graph_def)
  from build_lines_inv [OF grafo_inicial(1) this] grafo_inicial(2) [of sts]
  show ?thesis by simp
qed


text \<open>
  C7: in a graph built from either form of the edges, the keys are the declared stations,
  the neighbour of every adjacency entry is a key, and whenever B is in the list of A with
  a line, A is in the list of B with the same line.
\<close>

theorem adjacencia_simetrica:
  assumes "build_graph sts data = Inr g" and "map_of g a = Some cs" and "c \<in> set cs"
  shows "vizinho c \<in> keys g \<and> keys g = keys sts
         \<and> (\<exists>cs'. map_of g (vizinho c) = Some cs'
                \<and> \<lparr>vizinho = a, linha = linha c\<rparr> \<in> set cs')"
proof -
  from build_graph_inv [OF assms(1)] have sim: "simetrico g" and k: "keys g = keys sts"
    by simp_all
  from sim assms(2,3) obtain cs' where
    cs': "map_of g (vizinho c) = Some cs'" "\<lparr>vizinho = a, linha = linha c\<rparr> \<in> set cs'"
    unfolding simetrico_def by blast
  then have "vizinho c \<in> keys g" by (simp add: keys_map_of)
  with k cs' show ?thesis by blast
qed

theorem adjacencia_simetrica_witness:
  "build_graph estacoes_linha arestas_linha = Inr grafo_linha
   \<and> map_of grafo_linha ''X'' = Some [\<lparr>vizinho = ''Y'', linha = ''A''\<rparr>]
   \<and> ''Y'' \<in> keys grafo_linha \<and> keys grafo_linha = keys estacoes_linha
   \<and> (\<exists>cs'. map_of grafo_linha ''Y'' = Some cs' \<and> \<lparr>vizinho = ''X'', linha = ''A''\<rparr> \<in> set cs')"
proof -
  have b: "build_graph estacoes_linha arestas_linha = Inr grafo_linha"
    using init_linha by (auto simp: init_def roteador_linha_def split: sum.splits)
  have l: "map_of grafo_linha ''X'' = Some [\<lparr>vizinho = ''Y'', linha = ''A''\<rparr>]"
    by (simp add: grafo_linha_def)
  from adjacencia_simetrica [OF b l, of "\<lparr>vizinho = ''Y'', linha = ''A''\<rparr>"]
  have "''Y'' \<in> keys grafo_linha \<and> keys grafo_linha = keys estacoes_linha
     \<and> (\<exists>cs'. map_of grafo_linha ''Y'' = Some cs' \<and> \<lparr>vizinho = ''X'', linha = ''A''\<rparr> \<in> set cs')"
    by force
  with b l show ?thesis by blast
qed

section \<open>Undeclared stations and malformed lines\<close>

lemma build_pares_filter:
  "build_pares nome ps g = build_pares nome (filter (par_declarado (keys g)) ps) g"
proof (induction ps arbitrary: g)
  case Nil
  show ?case by simp
next
  case (Cons par ps)
  show ?case
  proof (cases "par_declarado (keys g) par")
    case True
    let ?g = "add_edge (strip (par ! 0)) (strip (par ! 1)) nome g"
    from True have "build_pares nome (par # ps) g = build_pares nome ps ?g"
      by (simp add: par_declarado_def Let_def)
    also have "\<dots> = build_pares nome (filter (par_declarado (keys ?g)) ps) ?g"
      by (rule Cons.IH)
    also have "\<dots> = build_pares nome (par # filter (par_declarado (keys g)) ps) g"
      using True by (simp add: par_declarado_def Let_def keys_add_edge)
    finally show ?thesis using True by simp
  next
    case False
    then have "build_pares nome (par # ps) g = build_pares nome ps g"
      by (auto simp: par_declarado_def Let_def)
    with False Cons.IH [of g] show ?thesis by simp
  qed
qed

lemma build_dict_filter:
  "build_dict items g
     = build_dict (map (\<lambda>(nome, pares). (nome, filter (par_declarado (keys g)) pares)) items) g"
proof (induction items arbitrary: g)
  case Nil
  show ?case by simp
next
  case (Cons item items)
  obtain nome ps where item: "item = (nome, ps)" by (cases item)
  let ?g = "build_pares nome ps g"
  have k: "keys ?g = keys g"
  proof (induction ps arbitrary: g)
    case Nil
    show ?case by simp
  next
    case (Cons par ps)
    then show ?case by (simp add: Let_def keys_add_edge)
  qed
  let ?F = "\<lambda>(nome, pares). (nome, filter (par_declarado (keys g)) pares)"
  have "build_dict (map ?F (item # items)) g
      = build_dict (map ?F items) (build_pares nome (filter (par_declarado (keys g)) ps) g)"
    by (simp add: item)
  also have "\<dots> = build_dict (map ?F items) ?g"
    by (simp only: build_pares_filter [of nome ps g, symmetric])
  also have "\<dots> = build_dict items ?g"
    using Cons.IH [of ?g] by (simp only: k)
  also have "\<dots> = build_dict (item # items) g" by (simp add: item)
  finally show ?case by (rule sym)
qed

lemma build_lines_validas:
  "\<forall>l \<in> set ls. linha_valida (keys g) l \<Longrightarrow> \<exists>g'. build_lines ls g = Inr g'"
proof (induction ls arbitrary: g)
  case Nil
  show ?case by simp
next
  case (Cons line ls)
  from Cons.prems have "linha_valida (keys g) line" by simp
  then obtain origem destino nome where
    f: "map strip (split '' - '' line) = [origem, destino, nome]"
    and o: "origem \<in> keys g" and d: "destino \<in> keys g"
    by (auto simp: linha_valida_def campos_def split: list.splits)
  from Cons.prems have "\<forall>l \<in> set ls. linha_valida (keys (add_edge origem destino nome g)) l"
    by (simp add: keys_add_edge)
  from Cons.IH [OF this] f o d show ?case by simp
qed

lemma build_lines_invalida:
  assumes "\<forall>l \<in> set pre. linha_valida (keys g) l" and "\<not> linha_valida (keys g) line"
  shows "build_lines (pre @ line # post) g
           = Inl (if length (campos line) = 3 then KeyError else ValueError)"
  using assms
proof (induction pre arbitrary: g)
  case Nil
  then show ?case
    by (auto simp: linha_valida_def campos_def split: list.splits)
next
  case (Cons l pre)
  from Cons.prems have "linha_valida (keys g) l" by simp
  then obtain origem destino nome where
    f: "map strip (split '' - '' l) = [origem, destino, nome]"
    and o: "origem \<in> keys g" and d: "destino \<in> keys g"
    by (auto simp: linha_valida_def campos_def split: list.splits)
  let ?g = "add_edge origem destino nome g"
  from Cons.prems have "\<forall>l \<in> set pre. linha_valida (keys ?g) l" "\<not> linha_valida (keys ?g) line"
    by (simp_all add: keys_add_edge)
  from Cons.IH [OF this] f o d show ?case by simp
qed

lemma strip_simples:
  "strip ''X'' = ''X''" "strip ''Y'' = ''Y''" "strip ''Z'' = ''Z''" "strip ''W'' = ''W''"
  "strip ''A'' = ''A''"
  by (simp_all add: strip_def isspace_def)

lemma linhas_XYW: "split [CHR 0x0A] (strip texto_XYW) = [''X - Y - A''] @ ''Y - W - A'' # []"
  by (simp add: texto_XYW_def split_def strip_def isspace_def)

lemma campos_exemplos:
  "campos ''X - Y - A'' = [''X'', ''Y'', ''A'']"
  "campos ''Y - W - A'' = [''Y'', ''W'', ''A'']"
  "campos ''  Y - Z - A'' = [''Y'', ''Z'', ''A'']"
  "campos ''X - Y'' = [''X'', ''Y'']"
  by (simp_all add: split_def strip_def isspace_def campos_def)

lemma build_texto_XYZ: "build_graph estacoes_linha (Text texto_XYZ) = Inr grafo_linha"
  using campos_exemplos
  by (simp add: build_graph_def texto_XYZ_def split_def strip_def isspace_def campos_def
      estacoes_linha_def grafo_linha_def keys_def add_edge_def append_adj_def)


lemma strip_latin1:
  "strip (''X'' @ [CHR 0xA0]) = ''X''"
  "strip ([CHR 0x85] @ ''X - Y - A'') = ''X - Y - A''"
  by (simp_all add: strip_def isspace_def)

lemma build_latin1:
  "build_graph estacoes_linha (Text ([CHR 0x85] @ ''X - Y - A''))
     = Inr [(''X'', [\<lparr>vizinho = ''Y'', linha = ''A''\<rparr>]),
            (''Y'', [\<lparr>vizinho = ''X'', linha = ''A''\<rparr>]), (''Z'', [])]"
  "build_graph estacoes_linha (Dict [(''A'', [[''X'' @ [CHR 0xA0], ''Y'']])])
     = Inr [(''X'', [\<lparr>vizinho = ''Y'', linha = ''A''\<rparr>]),
            (''Y'', [\<lparr>vizinho = ''X'', linha = ''A''\<rparr>]), (''Z'', [])]"
  by (simp_all add: build_graph_def estacoes_linha_def keys_def add_edge_def append_adj_def
      Let_def split_def strip_def isspace_def)

text \<open>
  C6: in the dictionary form the builder never fails, and a pair with an endpoint that is
  not a declared station (or with fewer than two members) changes nothing: the graph is the
  one built without such pairs. In the text form the first line that does not give three
  trimmed fields raises \<^verbatim>\<open>ValueError\<close> and the first line with three fields and an
  undeclared endpoint raises \<^verbatim>\<open>KeyError\<close>; a text all of whose lines are accepted builds a
  graph. Names are compared after trimming, which removes the characters 133 and 160 as
  well as the ASCII blanks.
\<close>

theorem arestas_nao_declaradas:
  "(\<exists>g. build_graph sts (Dict items) = Inr g)
   \<and> build_graph sts (Dict items)
       = build_graph sts
           (Dict (map (\<lambda>(nome, pares). (nome, filter (par_declarado (keys sts)) pares)) items))
   \<and> (\<forall>pre line post.
         split [CHR 0x0A] (strip texto) = pre @ line # post
         \<and> (\<forall>l \<in> set pre. linha_valida (keys sts) l) \<and> \<not> linha_valida (keys sts) line
         \<longrightarrow> build_graph sts (Text texto)
               = Inl (if length (campos line) = 3 then KeyError else ValueError))
   \<and> ((\<forall>l \<in> set (split [CHR 0x0A] (strip texto)). linha_valida (keys sts) l)
         \<longrightarrow> (\<exists>g. build_graph sts (Text texto) = Inr g))"
proof -
  let ?g0 = "map (\<lambda>(name, _). (name, [])) sts"
  have k: "keys ?g0 = keys sts" by (rule grafo_inicial(2))
  have a: "\<exists>g. build_graph sts (Dict items) = Inr g" by (simp add: build_graph_def)
  have b: "build_graph sts (Dict items)
       = build_graph sts
           (Dict (map (\<lambda>(nome, pares). (nome, filter (par_declarado (keys sts)) pares)) items))"
    using build_dict_filter [of items ?g0] by (simp add: build_graph_def k)
  have c: "build_graph sts (Text texto)
               = Inl (if length (campos line) = 3 then KeyError else ValueError)"
    if "split [CHR 0x0A] (strip texto) = pre @ line # post"
      and "\<forall>l \<in> set pre. linha_valida (keys sts) l" and "\<not> linha_valida (keys sts) line"
    for pre line post
    using build_lines_invalida [of pre ?g0 line post] that by (simp add: build_graph_def k)
  have d: "\<exists>g. build_graph sts (Text texto) = Inr g"
    if "\<forall>l \<in> set (split [CHR 0x0A] (strip texto)). linha_valida (keys sts) l"
    using build_lines_validas [of "split [CHR 0x0A] (strip texto)" ?g0] that
    by (simp add: build_graph_def k)
  from a b c d show ?thesis by blast
qed


theorem arestas_nao_declaradas_witness:
  "build_graph estacoes_linha (Dict [(''A'', [[''X'', ''Y''], [''Y'', ''W'']])])
     = Inr [(''X'', [\<lparr>vizinho = ''Y'', linha = ''A''\<rparr>]),
            (''Y'', [\<lparr>vizinho = ''X'', linha = ''A''\<rparr>]), (''Z'', [])]
   \<and> build_graph estacoes_linha (Text texto_XYW) = Inl KeyError
   \<and> build_graph estacoes_linha (Text ''X - Y'') = Inl ValueError
   \<and> build_graph estacoes_linha (Text texto_XYZ) = Inr grafo_linha
   \<and> build_graph estacoes_linha (Text ([CHR 0x85] @ ''X - Y - A''))
     = Inr [(''X'', [\<lparr>vizinho = ''Y'', linha = ''A''\<rparr>]),
            (''Y'', [\<lparr>vizinho = ''X'', linha = ''A''\<rparr>]), (''Z'', [])]
   \<and> build_graph estacoes_linha (Dict [(''A'', [[''X'' @ [CHR 0xA0], ''Y'']])])
     = Inr [(''X'', [\<lparr>vizinho = ''Y'', linha = ''A''\<rparr>]),
            (''Y'', [\<lparr>vizinho = ''X'', linha = ''A''\<rparr>]), (''Z'', [])]"
proof -
  note t = arestas_nao_declaradas [of estacoes_linha "[(''A'', [[''X'', ''Y''], [''Y'', ''W'']])]"]
  have k: "keys estacoes_linha = {''X'', ''Y'', ''Z''}"
    by (auto simp: keys_def estacoes_linha_def)
  have d: "par_declarado (keys estacoes_linha) [''X'', ''Y'']"
      "\<not> par_declarado (keys estacoes_linha) [''Y'', ''W'']"
    by (simp_all add: par_declarado_def k strip_letra strip_simples)
  from t [of texto_XYW, THEN conjunct2, THEN conjunct1]
  have a: "build_graph estacoes_linha (Dict [(''A'', [[''X'', ''Y''], [''Y'', ''W'']])])
     = build_graph estacoes_linha (Dict [(''A'', [[''X'', ''Y'']])])"
    by (simp add: d)
  have a': "build_graph estacoes_linha (Dict [(''A'', [[''X'', ''Y'']])])
     = Inr [(''X'', [\<lparr>vizinho = ''Y'', linha = ''A''\<rparr>]),
            (''Y'', [\<lparr>vizinho = ''X'', linha = ''A''\<rparr>]), (''Z'', [])]"
    by (simp add: build_graph_def estacoes_linha_def keys_def add_edge_def append_adj_def
        strip_letra Let_def)
  have v: "linha_valida (keys estacoes_linha) ''X - Y - A''"
      "\<not> linha_valida (keys estacoes_linha) ''Y - W - A''"
      "\<not> linha_valida (keys estacoes_linha) ''X - Y''"
    by (simp_all add: linha_valida_def campos_exemplos k)
  from t [of texto_XYW, THEN conjunct2, THEN conjunct2, THEN conjunct1, rule_format,
      of "[''X - Y - A'']" "''Y - W - A''" "[]"] linhas_XYW v
  have b: "build_graph estacoes_linha (Text texto_XYW) = Inl KeyError"
    by (simp add: campos_exemplos)
  have "split [CHR 0x0A] (strip ''X - Y'') = [] @ ''X - Y'' # []"
    by (simp add: split_def strip_def isspace_def)
  with t [of "''X - Y''", THEN conjunct2, THEN conjunct2, THEN conjunct1, rule_format,
      of "[]" "''X - Y''" "[]"] v
  have c: "build_graph estacoes_linha (Text ''X - Y'') = Inl ValueError"
    by (simp add: campos_exemplos)
  from a a' have d: "build_graph estacoes_linha (Dict [(''A'', [[''X'', ''Y''], [''Y'', ''W'']])])
     = Inr [(''X'', [\<lparr>vizinho = ''Y'', linha = ''A''\<rparr>]),
            (''Y'', [\<lparr>vizinho = ''X'', linha = ''A''\<rparr>]), (''Z'', [])]"
    by simp
  from d b c build_texto_XYZ build_latin1 show ?thesis by (intro conjI)
qed


section \<open>Termination of the enumeration\<close>

text \<open>
  The call relation of the two functions, as the definition gives it: the loop is entered
  from a call whose station is neither the destination nor cached, it goes on with the rest
  of the adjacency list, and a recursive call is made on the neighbour of the entry at the
  head of the list, which is not in the visited set, with the current station added to the
  visited set.
\<close>

lemma chamada_recursiva:
  assumes "encontrar_caminhos_recursivo_percorrer_conexoes_rel
             (Inl (sts', g', m', w, d', V', h', la')) y"
  shows "\<exists>a V h la c cs acc. y = Inr (sts', g', m', a, d', V, h, la, c # cs, acc)
           \<and> w = vizinho c \<and> w \<notin> V \<and> V' = insert a V \<and> la' = Some (linha c)"
  using assms by (cases rule: encontrar_caminhos_recursivo_percorrer_conexoes_rel.cases) auto

lemma laco_iniciado:
  assumes "encontrar_caminhos_recursivo_percorrer_conexoes_rel
             (Inr (sts', g', m', a, d', V, h, la, cs, acc)) (Inl x)"
  shows "x = (sts', g', m', a, d', V, h, la) \<and> a \<noteq> d' \<and> m' (a, V) = None
         \<and> map_of g' a = Some cs \<and> acc = []"
  using assms by (cases rule: encontrar_caminhos_recursivo_percorrer_conexoes_rel.cases) auto

lemma laco_continuado:
  assumes "encontrar_caminhos_recursivo_percorrer_conexoes_rel
             (Inr (sts', g', m', a, d', V, h, la, cs, acc)) (Inr y)"
  shows "\<exists>m c acc0. y = (sts', g', m, a, d', V, h, la, c # cs, acc0)"
  using assms by (cases rule: encontrar_caminhos_recursivo_percorrer_conexoes_rel.cases) auto

lemma td_laco:
  "get_tempo_deslocamento estacoes_laco ''A'' ''A'' = Inr 0"
  "get_tempo_deslocamento estacoes_laco ''A'' ''B'' = Inr 0"
  by (simp_all add: estacoes_laco_def avaliar)

lemma passo_laco:
  assumes "vizinho c \<notin> V" and "get_tempo_deslocamento sts a (vizinho c) = Inr 0"
    and "hour h < 11" and "la = None \<or> la = Some (linha c)"
    and "datetime_min \<le> h + 90000000" and "h + 90000000 \<le> datetime_max"
  shows "encontrar_caminhos_recursivo_percorrer_conexoes_rel
           (Inl (sts, g, m, vizinho c, d, insert a V, h + 90000000, Some (linha c)))
           (Inr (sts, g, m, a, d, V, h, la, c # cs, acc))"
proof -
  have "datetime_add h (timedelta_minutes (get_tempo_espera h + 0 +
          (if la \<noteq> None \<and> la \<noteq> Some (linha c) then PENALIDADE_TROCA_LINHA_MIN else 0)))
        = Inr (h + 90000000)"
    using assms(3-6)
    by (auto simp: get_tempo_espera_def datetime_add_def timedelta_minutes_def py_round_def
        Let_def)
  from encontrar_caminhos_recursivo_percorrer_conexoes_rel.intros(2)
         [OF assms(1,2) refl refl refl this]
  show ?thesis .
qed

lemma salto_laco:
  assumes "vizinho c \<in> V"
  shows "encontrar_caminhos_recursivo_percorrer_conexoes_rel
           (Inr (sts, g, m, a, d, V, h, la, cs, acc))
           (Inr (sts, g, m, a, d, V, h, la, c # cs, acc))"
  using assms by (intro encontrar_caminhos_recursivo_percorrer_conexoes_rel.intros(4)) simp

lemma entrada_laco:
  assumes "a \<noteq> d" and "m (a, V) = None" and "map_of g a = Some cs"
  shows "encontrar_caminhos_recursivo_percorrer_conexoes_rel
           (Inr (sts, g, m, a, d, V, h, la, cs, []))
           (Inl (sts, g, m, a, d, V, h, la))"
  using assms by (rule encontrar_caminhos_recursivo_percorrer_conexoes_rel.intros(1))

lemma map_of_laco: "map_of grafo_laco ''A'' = Some adj_A"
  by (simp add: grafo_laco_def adj_A_def)

text \<open>
  C8: the enumeration terminates on every graph and every query: every argument of the two
  functions is in the well-founded part of their call relation. The visited set does not
  grow at every call. On the network with an edge from A to A, the query from A to B at
  10:00 calls the function on A with A visited, over that edge, and in the course of that
  call the function is called on B with the same visited set.
\<close>

theorem chamada_repete_visitados:
  "(\<forall>x. encontrar_caminhos_recursivo_percorrer_conexoes_dom x)
   \<and> encontrar_caminhos_recursivo estacoes_laco grafo_laco Map.empty
        ''A'' ''B'' {} 36000000000 None = Inr ([rota_AAB, rota_AAB, rota_AB], memo_apos_AB)
   \<and> encontrar_caminhos_recursivo_percorrer_conexoes_rel\<^sup>+\<^sup>+
        (Inl (estacoes_laco, grafo_laco, Map.empty, ''A'', ''B'', {''A''}, 36090000000, Some ''L''))
        (Inl (estacoes_laco, grafo_laco, Map.empty, ''A'', ''B'', {}, 36000000000, None))
   \<and> encontrar_caminhos_recursivo_percorrer_conexoes_rel\<^sup>+\<^sup>+
        (Inl (estacoes_laco, grafo_laco, Map.empty, ''B'', ''B'', {''A''}, 36180000000, Some ''L''))
        (Inl (estacoes_laco, grafo_laco, Map.empty, ''A'', ''B'', {''A''}, 36090000000, Some ''L''))"
proof -
  let ?R = "encontrar_caminhos_recursivo_percorrer_conexoes_rel"
  let ?c = "\<lparr>vizinho = ''A'', linha = ''L''\<rparr>"
  let ?b = "\<lparr>vizinho = ''B'', linha = ''L''\<rparr>"
  have t: "\<forall>x. encontrar_caminhos_recursivo_percorrer_conexoes_dom x"
    using dominio_total by blast
  have e0: "?R (Inr (estacoes_laco, grafo_laco, Map.empty, ''A'', ''B'', {}, 36000000000, None,
                     adj_A, []))
               (Inl (estacoes_laco, grafo_laco, Map.empty, ''A'', ''B'', {}, 36000000000, None))"
    by (rule entrada_laco) (simp_all add: map_of_laco)
  have s0: "?R (Inl (estacoes_laco, grafo_laco, Map.empty, vizinho ?c, ''B'', insert ''A'' {},
                     36000000000 + 90000000, Some (linha ?c)))
               (Inr (estacoes_laco, grafo_laco, Map.empty, ''A'', ''B'', {}, 36000000000, None,
                     ?c # [?c, ?b], []))"
    by (rule passo_laco) (simp_all add: td_laco hour_def datetime_min_def datetime_max_def)
  have e1: "?R (Inr (estacoes_laco, grafo_laco, Map.empty, ''A'', ''B'', {''A''}, 36090000000,
                     Some ''L'', adj_A, []))
               (Inl (estacoes_laco, grafo_laco, Map.empty, ''A'', ''B'', {''A''}, 36090000000,
                     Some ''L''))"
    by (rule entrada_laco) (simp_all add: map_of_laco)
  have j1: "?R (Inr (estacoes_laco, grafo_laco, Map.empty, ''A'', ''B'', {''A''}, 36090000000,
                     Some ''L'', [?c, ?b], []))
               (Inr (estacoes_laco, grafo_laco, Map.empty, ''A'', ''B'', {''A''}, 36090000000,
                     Some ''L'', ?c # [?c, ?b], []))"
    by (rule salto_laco) simp
  have j2: "?R (Inr (estacoes_laco, grafo_laco, Map.empty, ''A'', ''B'', {''A''}, 36090000000,
                     Some ''L'', [?b], []))
               (Inr (estacoes_laco, grafo_laco, Map.empty, ''A'', ''B'', {''A''}, 36090000000,
                     Some ''L'', ?c # [?b], []))"
    by (rule salto_laco) simp
  have s1: "?R (Inl (estacoes_laco, grafo_laco, Map.empty, vizinho ?b, ''B'', insert ''A'' {''A''},
                     36090000000 + 90000000, Some (linha ?b)))
               (Inr (estacoes_laco, grafo_laco, Map.empty, ''A'', ''B'', {''A''}, 36090000000,
                     Some ''L'', ?b # [], []))"
    by (rule passo_laco) (simp_all add: td_laco hour_def datetime_min_def datetime_max_def)
  from s0 have s0': "?R
        (Inl (estacoes_laco, grafo_laco, Map.empty, ''A'', ''B'', {''A''}, 36090000000, Some ''L''))
        (Inr (estacoes_laco, grafo_laco, Map.empty, ''A'', ''B'', {}, 36000000000, None,
                     [?c, ?c, ?b], []))"
    by simp
  from e0 have e0': "?R (Inr (estacoes_laco, grafo_laco, Map.empty, ''A'', ''B'', {}, 36000000000,
                     None, [?c, ?c, ?b], []))
               (Inl (estacoes_laco, grafo_laco, Map.empty, ''A'', ''B'', {}, 36000000000, None))"
    by (simp add: adj_A_def)
  have a: "?R\<^sup>+\<^sup>+
        (Inl (estacoes_laco, grafo_laco, Map.empty, ''A'', ''B'', {''A''}, 36090000000, Some ''L''))
        (Inl (estacoes_laco, grafo_laco, Map.empty, ''A'', ''B'', {}, 36000000000, None))"
    using s0' e0' by (meson tranclp.intros)
  from s1 have s1': "?R
        (Inl (estacoes_laco, grafo_laco, Map.empty, ''B'', ''B'', {''A''}, 36180000000, Some ''L''))
        (Inr (estacoes_laco, grafo_laco, Map.empty, ''A'', ''B'', {''A''}, 36090000000,
                     Some ''L'', [?b], []))"
    by simp
  from e1 have e1': "?R (Inr (estacoes_laco, grafo_laco, Map.empty, ''A'', ''B'', {''A''}, 36090000000,
                     Some ''L'', [?c, ?c, ?b], []))
               (Inl (estacoes_laco, grafo_laco, Map.empty, ''A'', ''B'', {''A''}, 36090000000,
                     Some ''L''))"
    by (simp add: adj_A_def)
  have b: "?R\<^sup>+\<^sup>+
        (Inl (estacoes_laco, grafo_laco, Map.empty, ''B'', ''B'', {''A''}, 36180000000, Some ''L''))
        (Inl (estacoes_laco, grafo_laco, Map.empty, ''A'', ''B'', {''A''}, 36090000000, Some ''L''))"
    using s1' j2 j1 e1' by (meson tranclp.intros)
  from t enum_laco_memo a b show ?thesis by (intro conjI)
qed

theorem chamada_repete_visitados_witness:
  "encontrar_caminhos_recursivo_percorrer_conexoes_dom
     (Inl (estacoes_laco, grafo_laco, Map.empty, ''A'', ''B'', {}, 36000000000, None))
   \<and> memo_apos_AB (''A'', {''A''}) = Some [rota_AB]
   \<and> insert ''A'' {''A''} = {''A''}"
proof -
  from chamada_repete_visitados
  have "encontrar_caminhos_recursivo_percorrer_conexoes_dom
     (Inl (estacoes_laco, grafo_laco, Map.empty, ''A'', ''B'', {}, 36000000000, None))"
    by (rule conjunct1 [THEN spec])
  then show ?thesis by (simp add: memo_apos_AB_def)
qed

end
